theory Spec2Isabelle
  imports Complex_Main "HOL-Library.Sublist"
begin

section \<open>Text, errors and the backend's state\<close>

text \<open>
  A Python \<open>str\<close> is a sequence of Unicode code points; the patterns of the
  extractor use the en dash (U+2013) and the micro sign (U+00B5), so a character is
  its code point, a natural number.  \<open>cps\<close> reads an ASCII literal.
\<close>

type_synonym cp = nat
type_synonym ustr = "cp list"

definition cps :: "string \<Rightarrow> ustr" where
  "cps s = map of_char s"

text \<open>The exceptions the modelled methods can raise.\<close>

datatype error = ValueError | IndexError | AssertionError | LibraryError

text \<open>
  The fields of \<open>MedicalRAGBackend\<close> that the methods read or write.  The FAISS
  index is an object of an external library: its type is a parameter, and
  \<open>vector_store\<close> is \<open>None\<close> until \<open>build_vector_store\<close> has run.
\<close>

record 'ix backend =
  vector_store :: "'ix option"
  chunks :: "ustr list"
  api_key :: "ustr option"

text \<open>The state \<open>__init__\<close> leaves behind.\<close>

definition init_backend :: "ustr option \<Rightarrow> 'ix backend" where
  "init_backend key = \<lparr>vector_store = None, chunks = [], api_key = key\<rparr>"

subsection \<open>Whitespace and slices\<close>

text \<open>
  \<open>str.strip()\<close> and the pattern class \<open>\s\<close> use the same set of code points
  (CPython's \<open>Py_UNICODE_ISSPACE\<close>).
\<close>

definition is_space :: "cp \<Rightarrow> bool" where
  "is_space c \<longleftrightarrow>
     (9 \<le> c \<and> c \<le> 13) \<or> (28 \<le> c \<and> c \<le> 32) \<or> c = 133 \<or> c = 160 \<or> c = 5760 \<or>
     (8192 \<le> c \<and> c \<le> 8202) \<or> c = 8232 \<or> c = 8233 \<or> c = 8239 \<or> c = 8287 \<or>
     c = 12288"

definition strip :: "ustr \<Rightarrow> ustr" where
  "strip s = rev (dropWhile is_space (rev (dropWhile is_space s)))"

text \<open>
  A slice \<open>xs[start:stop]\<close>: a negative bound counts from the end, and both bounds
  are clamped to the list.
\<close>

definition slice_bound :: "int \<Rightarrow> int \<Rightarrow> nat" where
  "slice_bound n k = nat (if k < 0 then max 0 (k + n) else min k n)"

definition py_slice :: "'a list \<Rightarrow> int \<Rightarrow> int \<Rightarrow> 'a list" where
  "py_slice xs start stop =
     (let n = int (length xs); lo = slice_bound n start; hi = slice_bound n stop
      in take (hi - lo) (drop lo xs))"

section \<open>Chunking\<close>

text \<open>
  \<^verbatim>\<open>
  def chunk_text(self, text, chunk_size=800, overlap=100):
      chunks = []
      step = chunk_size - overlap
      for i in range(0, len(text), step):
          chunk = text[i:i + chunk_size]
          if chunk.strip():
              chunks.append(chunk.strip())
      self.chunks = chunks
      return chunks
  \<close>
  \<open>range(0, n, step)\<close> raises \<open>ValueError\<close> for \<open>step = 0\<close>, is empty for a
  negative step (as \<open>0 \<le> n\<close>), and counts \<open>0, step, 2 * step, ...\<close> below \<open>n\<close>
  otherwise.  \<open>chunk_loop\<close> is the \<open>for\<close> loop from the index \<open>i\<close> on.
\<close>

function chunk_loop :: "ustr \<Rightarrow> int \<Rightarrow> int \<Rightarrow> int \<Rightarrow> ustr list" where
  "chunk_loop txt chunk_size step i =
     (if 0 < step \<and> i < int (length txt) then
        (let chunk = py_slice txt i (i + chunk_size) in
         (if strip chunk \<noteq> [] then [strip chunk] else []) @
         chunk_loop txt chunk_size step (i + step))
      else [])"
  by pat_completeness auto
termination
  by (relation "measure (\<lambda>(txt, chunk_size, step, i). nat (int (length txt) - i))") auto

declare chunk_loop.simps [simp del]

definition chunk_text ::
  "'ix backend \<Rightarrow> ustr \<Rightarrow> int \<Rightarrow> int \<Rightarrow> error + (ustr list \<times> 'ix backend)" where
  "chunk_text self txt chunk_size overlap =
     (let step = chunk_size - overlap in
      if step = 0 then Inl ValueError
      else (let cks = chunk_loop txt chunk_size step 0
            in Inr (cks, self\<lparr>chunks := cks\<rparr>)))"

text \<open>
  The windows the loop cuts, before trimming: the same loop with the \<open>strip\<close> test
  left out.  It is used to state what the chunks cover.
\<close>

function window_loop :: "ustr \<Rightarrow> int \<Rightarrow> int \<Rightarrow> int \<Rightarrow> ustr list" where
  "window_loop txt chunk_size step i =
     (if 0 < step \<and> i < int (length txt) then
        py_slice txt i (i + chunk_size) # window_loop txt chunk_size step (i + step)
      else [])"
  by pat_completeness auto
termination
  by (relation "measure (\<lambda>(txt, chunk_size, step, i). nat (int (length txt) - i))") auto

declare window_loop.simps [simp del]

definition windows :: "ustr \<Rightarrow> int \<Rightarrow> int \<Rightarrow> ustr list" where
  "windows txt chunk_size overlap = window_loop txt chunk_size (chunk_size - overlap) 0"

text \<open>
  The spec's reading of "consecutive chunks overlap by exactly \<open>k\<close> characters, except
  possibly the final chunk": the last \<open>k\<close> characters of a chunk are the first \<open>k\<close>
  of the next one, for every pair whose second chunk is not the final one.
\<close>

definition overlaps_by :: "nat \<Rightarrow> ustr \<Rightarrow> ustr \<Rightarrow> bool" where
  "overlaps_by k a b \<longleftrightarrow>
     k \<le> length a \<and> k \<le> length b \<and> drop (length a - k) a = take k b"

fun spec_overlap :: "nat \<Rightarrow> ustr list \<Rightarrow> bool" where
  "spec_overlap k (a # b # c # r) = (overlaps_by k a b \<and> spec_overlap k (b # c # r))"
| "spec_overlap k r = True"

section \<open>Retrieval\<close>

text \<open>
  \<^verbatim>\<open>
  def retrieve_relevant_chunks(self, query, top_k=5):
      if not self.vector_store:
          return []
      query_embedding = self.embedding_model.encode([query], ...).astype(np.float32)
      _, indices = self.vector_store.search(query_embedding, min(top_k, len(self.chunks)))
      return [self.chunks[i] for i in indices[0]]
  \<close>
  The embedding model and the FAISS index are external libraries.  The parameter
  \<open>search\<close> stands for encoding the query and searching the index with the given
  \<open>k\<close>; it yields the row \<open>indices[0]\<close> or the library's error.
\<close>

definition py_index :: "'a list \<Rightarrow> int \<Rightarrow> error + 'a" where
  "py_index xs i =
     (let n = int (length xs); j = (if i < 0 then i + n else i)
      in if 0 \<le> j \<and> j < n then Inr (xs ! nat j) else Inl IndexError)"

fun collect_chunks :: "ustr list \<Rightarrow> int list \<Rightarrow> error + ustr list" where
  "collect_chunks cks [] = Inr []"
| "collect_chunks cks (i # js) =
     (case py_index cks i of
        Inl e \<Rightarrow> Inl e
      | Inr c \<Rightarrow> (case collect_chunks cks js of Inl e \<Rightarrow> Inl e | Inr cs \<Rightarrow> Inr (c # cs)))"

definition retrieve_relevant_chunks ::
  "('ix \<Rightarrow> ustr \<Rightarrow> int \<Rightarrow> error + int list) \<Rightarrow> 'ix backend \<Rightarrow> ustr \<Rightarrow> int \<Rightarrow> error + ustr list"
  where
  "retrieve_relevant_chunks search self query top_k =
     (case vector_store self of
        None \<Rightarrow> Inr []
      | Some ix \<Rightarrow>
          (case search ix query (min top_k (int (length (chunks self)))) of
             Inl e \<Rightarrow> Inl e
           | Inr indices \<Rightarrow> collect_chunks (chunks self) indices))"

text \<open>A library search that fails whenever it is called, for closed examples.\<close>

definition failing_search :: "unit \<Rightarrow> ustr \<Rightarrow> int \<Rightarrow> error + int list" where
  "failing_search ix query k = Inl LibraryError"

subsection \<open>The flat L2 index of the library\<close>





section \<open>The regular expressions of the extractor\<close>

text \<open>
  The four patterns of \<open>_extract_medical_parameters\<close> are sequences of single
  characters, character classes, greedy repetitions of a class and capturing groups.
  The character classes:
  \<^item> \<open>Lit c\<close>: the character \<open>c\<close>;
  \<open>LitI c\<close>: the character \<open>c\<close> under \<open>re.IGNORECASE\<close>;
  \<^item> \<open>Space\<close>: \<open>\s\<close>; \<open>Sep\<close>: \<open>[:\s]\<close>; \<open>Num\<close>: \<open>[\d.,]\<close>;
  \<open>Dash\<close>: the en dash or the hyphen.

  Under \<open>re.IGNORECASE\<close> a pattern character matches a text character when their
  lower-case forms agree, or are one of the pairs CPython treats as equivalent.
  \<open>to_lower\<close> is the simple lower-case mapping on the code points that can meet a
  character of the catalog (ASCII letters, U+0130, U+212A and U+039C); of the
  equivalent pairs only those of \<open>i\<close>, \<open>s\<close> and the micro sign concern the catalog.

  \<open>\d\<close> in a \<open>str\<close> pattern, and \<open>float\<close>, take every Unicode decimal digit
  (category Nd, \<open>str.isdecimal\<close>), not only \<open>0\<close>--\<open>9\<close>.  These come in runs of
  ten consecutive code points with the values 0 to 9; \<open>decimal_zeros\<close> lists the
  first code point of each run outside ASCII (Unicode 14.0.0, the character database
  of CPython 3.11).  \<open>digit_value\<close> is the digit's value; the ASCII range is
  decided first.
\<close>

definition decimal_zeros :: "cp list" where
  "decimal_zeros =
     [1632, 1776, 1984, 2406, 2534, 2662, 2790, 2918, 3046, 3174, 3302, 3430, 3558,
      3664, 3792, 3872, 4160, 4240, 6112, 6160, 6470, 6608, 6784, 6800, 6992, 7088,
      7232, 7248, 42528, 43216, 43264, 43472, 43504, 43600, 44016, 65296, 66720, 68912,
      69734, 69872, 69942, 70096, 70384, 70736, 70864, 71248, 71360, 71472, 71904,
      72016, 72784, 73040, 73120, 92768, 92864, 93008, 120782, 120792, 120802, 120812,
      120822, 123200, 123632, 125264, 130032]"

definition digit_value :: "cp \<Rightarrow> nat option" where
  "digit_value c =
     (if c < 128 then (if 48 \<le> c \<and> c \<le> 57 then Some (c - 48) else None)
      else map_option (\<lambda>z. c - z) (find (\<lambda>z. z \<le> c \<and> c < z + 10) decimal_zeros))"

definition is_digit :: "cp \<Rightarrow> bool" where
  "is_digit c \<longleftrightarrow> digit_value c \<noteq> None"

definition to_lower :: "cp \<Rightarrow> cp" where
  "to_lower c =
     (if 65 \<le> c \<and> c \<le> 90 then c + 32
      else if c = 304 then 105
      else if c = 8490 then 107
      else if c = 924 then 956
      else c)"

definition ci_eq :: "cp \<Rightarrow> cp \<Rightarrow> bool" where
  "ci_eq p c \<longleftrightarrow>
     to_lower c = to_lower p \<or>
     (to_lower p = 105 \<and> to_lower c = 305) \<or>
     (to_lower p = 115 \<and> to_lower c = 383) \<or>
     (to_lower p = 181 \<and> to_lower c = 956)"

datatype cls = Lit cp | LitI cp | Space | Sep | Num | Dash

fun cls_mem :: "cls \<Rightarrow> cp \<Rightarrow> bool" where
  "cls_mem (Lit p) c = (c = p)"
| "cls_mem (LitI p) c = ci_eq p c"
| "cls_mem Space c = is_space c"
| "cls_mem Sep c = (c = 58 \<or> is_space c)"
| "cls_mem Num c = (is_digit c \<or> c = 46 \<or> c = 44)"
| "cls_mem Dash c = (c = 8211 \<or> c = 45)"

text \<open>
  A pattern is a list of items: one character of a class, a greedy \<open>*\<close> of a class,
  and the two ends of a capturing group.  \<open>X+\<close> is written \<open>X X*\<close>, which tries
  the same matches in the same order.
\<close>

datatype item = One cls | Star cls | Open nat | Close nat

datatype mark = GStart nat | GEnd nat

type_synonym marks = "(mark \<times> nat) list"

text \<open>
  \<open>match_here p s i m\<close> matches the pattern \<open>p\<close> at the front of \<open>s\<close>, which starts
  at position \<open>i\<close> of the whole text, the way CPython's backtracking matcher does: a
  star takes as many characters as it can and gives them back one at a time.  It
  yields the end of the first match found and the group positions.
\<close>

fun match_here :: "item list \<Rightarrow> ustr \<Rightarrow> nat \<Rightarrow> marks \<Rightarrow> (nat \<times> marks) option" where
  "match_here [] s i m = Some (i, m)"
| "match_here (One k # r) [] i m = None"
| "match_here (One k # r) (c # s) i m =
     (if cls_mem k c then match_here r s (Suc i) m else None)"
| "match_here (Star k # r) [] i m = match_here r [] i m"
| "match_here (Star k # r) (c # s) i m =
     (if cls_mem k c then
        (case match_here (Star k # r) s (Suc i) m of
           Some x \<Rightarrow> Some x
         | None \<Rightarrow> match_here r (c # s) i m)
      else match_here r (c # s) i m)"
| "match_here (Open g # r) s i m = match_here r s i ((GStart g, i) # m)"
| "match_here (Close g # r) s i m = match_here r s i ((GEnd g, i) # m)"

datatype rmatch = RMatch (m_start: nat) (m_end: nat) (m_marks: marks)

text \<open>\<open>re.search\<close>: the match at the leftmost position that has one.\<close>

fun search_from :: "item list \<Rightarrow> ustr \<Rightarrow> nat \<Rightarrow> rmatch option" where
  "search_from p [] i =
     (case match_here p [] i [] of
        None \<Rightarrow> None
      | Some (e, m) \<Rightarrow> Some (RMatch i e m))"
| "search_from p (c # s) i =
     (case match_here p (c # s) i [] of
        None \<Rightarrow> search_from p s (Suc i)
      | Some (e, m) \<Rightarrow> Some (RMatch i e m))"

definition re_search :: "item list \<Rightarrow> ustr \<Rightarrow> rmatch option" where
  "re_search p s = search_from p s 0"

text \<open>
  \<open>match.group(g)\<close>, for a match in the text \<open>s\<close>.  Every group of the patterns
  below takes part in every match, so the empty default is never seen.
\<close>

definition group :: "rmatch \<Rightarrow> ustr \<Rightarrow> nat \<Rightarrow> ustr" where
  "group mt s g =
     (case (map_of (m_marks mt) (GStart g), map_of (m_marks mt) (GEnd g)) of
        (Some a, Some b) \<Rightarrow> take (b - a) (drop a s)
      | _ \<Rightarrow> [])"

text \<open>
  The value pattern is the f-string
  \<^verbatim>\<open>rf"{name}\s*[:\s]+([\d.,]+)\s*{re.escape(unit)}"\<close>.
  The name is pasted in unescaped, so its characters are pattern syntax: the
  parentheses of \<open>ALT (SGPT)\<close> and \<open>AST (SGOT)\<close> open and close a capturing group
  (and match no character), which makes the number the second group of these two
  patterns.  Every other character of the catalog's names, and every character of the
  escaped units, stands for itself.
\<close>

fun name_items :: "ustr \<Rightarrow> nat \<Rightarrow> nat list \<Rightarrow> item list" where
  "name_items [] g st = []"
| "name_items (c # cs) g st =
     (if c = 40 then Open g # name_items cs (Suc g) (g # st)
      else if c = 41 then
        (case st of [] \<Rightarrow> name_items cs g [] | h # t \<Rightarrow> Close h # name_items cs g t)
      else One (LitI c) # name_items cs g st)"

definition value_pattern :: "ustr \<Rightarrow> ustr \<Rightarrow> item list" where
  "value_pattern name unit =
     (let g = Suc (length (filter (\<lambda>c. c = 40) name)) in
      name_items name 1 [] @
      [Star Space, One Sep, Star Sep, Open g, One Num, Star Num, Close g, Star Space] @
      map (\<lambda>c. One (LitI c)) unit)"

text \<open>
  The three reference patterns: \<^verbatim>\<open>r'([\d.,]+)\s*[D-]\s*([\d.,]+)'\<close>, where \<^verbatim>\<open>D\<close>
  stands for the en dash (U+2013) of the source, \<^verbatim>\<open>r'<\s*([\d.,]+)'\<close> and
  \<^verbatim>\<open>r'>\s*([\d.,]+)'\<close>.
\<close>

definition range_pattern :: "item list" where
  "range_pattern =
     [Open 1, One Num, Star Num, Close 1, Star Space, One Dash, Star Space,
      Open 2, One Num, Star Num, Close 2]"

definition lt_pattern :: "item list" where
  "lt_pattern = [One (Lit 60), Star Space, Open 1, One Num, Star Num, Close 1]"

definition gt_pattern :: "item list" where
  "gt_pattern = [One (Lit 62), Star Space, Open 1, One Num, Star Num, Close 1]"

section \<open>Parameter extraction\<close>

text \<open>The catalog \<open>known_params\<close>, in the insertion order of the dictionary.\<close>

definition known_params :: "(ustr \<times> ustr) list" where
  "known_params =
     [(cps ''Hemoglobin'', cps ''g/dL''),
      (cps ''RBC Count'', cps ''million/'' @ [181] @ cps ''L''),
      (cps ''WBC Count'', cps ''/'' @ [181] @ cps ''L''),
      (cps ''Platelet Count'', cps ''/'' @ [181] @ cps ''L''),
      (cps ''Hematocrit'', cps ''%''),
      (cps ''Total Bilirubin'', cps ''mg/dL''),
      (cps ''ALT (SGPT)'', cps ''U/L''),
      (cps ''AST (SGOT)'', cps ''U/L''),
      (cps ''Alkaline Phosphatase'', cps ''U/L''),
      (cps ''Total Cholesterol'', cps ''mg/dL''),
      (cps ''LDL Cholesterol'', cps ''mg/dL''),
      (cps ''HDL Cholesterol'', cps ''mg/dL''),
      (cps ''Triglycerides'', cps ''mg/dL''),
      (cps ''Fasting Blood Sugar'', cps ''mg/dL''),
      (cps ''HbA1c'', cps ''%'')]"

text \<open>
  \<open>s.replace(",", "")\<close> and \<open>float(s)\<close>.  The strings the extractor passes to
  \<open>float\<close> are made of digits and dots, or are the letters of a name group; of these
  \<open>float\<close> accepts exactly the digit strings with at most one dot and at least one
  digit.

  The result is an IEEE 754 double: the decimal, correctly rounded to the nearest
  double, ties to the even significand (CPython's \<open>float\<close> is correctly rounded).
  Such a string is never negative and never a NaN, so a result is a non-negative
  rational or \<open>inf\<close>.  \<open>to_double a b\<close> rounds the fraction \<open>a / b\<close>: \<open>e\<close> is the
  binary exponent (\<open>2 ^ e \<le> a / b < 2 ^ (e + 1)\<close>), the spacing of the doubles
  there is \<open>2 ^ (e - 52)\<close>, or \<open>2 ^ -1074\<close> in the subnormal range, and a result of
  \<open>2 ^ 1024\<close> or more is \<open>inf\<close>.
\<close>

datatype pyfloat = Finite rat | Infinity

text \<open>\<open>x < y\<close> and \<open>x <= y\<close> on these floats (\<open>x > y\<close> is \<open>y < x\<close>).\<close>

fun fl_lt :: "pyfloat \<Rightarrow> pyfloat \<Rightarrow> bool" where
  "fl_lt (Finite a) (Finite b) = (a < b)"
| "fl_lt (Finite a) Infinity = True"
| "fl_lt Infinity b = False"

fun fl_le :: "pyfloat \<Rightarrow> pyfloat \<Rightarrow> bool" where
  "fl_le (Finite a) (Finite b) = (a \<le> b)"
| "fl_le a Infinity = True"
| "fl_le Infinity (Finite b) = False"

function bit_length :: "int \<Rightarrow> nat" where
  "bit_length n = (if n \<le> 0 then 0 else Suc (bit_length (n div 2)))"
  by pat_completeness auto
termination
  by (relation "measure nat") auto

declare bit_length.simps [simp del]

definition pow2 :: "int \<Rightarrow> rat" where
  "pow2 e = (if 0 \<le> e then 2 ^ nat e else 1 / 2 ^ nat (- e))"

definition round_half_even :: "int \<Rightarrow> int \<Rightarrow> int" where
  "round_half_even a b =
     (let q = a div b; r = a mod b in
      if 2 * r < b then q
      else if b < 2 * r then q + 1
      else if even q then q else q + 1)"

definition to_double :: "int \<Rightarrow> int \<Rightarrow> pyfloat" where
  "to_double a b =
     (if a = 0 then Finite 0
      else
        (let d = int (bit_length a) - int (bit_length b);
             e = (if pow2 d * of_int b \<le> of_int a then d else d - 1);
             qe = max e (- 1022) - 52;
             n = (if 0 \<le> qe then round_half_even a (b * 2 ^ nat qe)
                  else round_half_even (a * 2 ^ nat (- qe)) b);
             x = of_int n * pow2 qe
         in if 2 ^ 1024 \<le> x then Infinity else Finite x))"

definition remove_commas :: "ustr \<Rightarrow> ustr" where
  "remove_commas s = filter (\<lambda>c. c \<noteq> 44) s"

definition dec_value :: "ustr \<Rightarrow> int" where
  "dec_value s =
     foldl (\<lambda>a c. 10 * a + (case digit_value c of Some d \<Rightarrow> int d | None \<Rightarrow> 0)) 0 s"

definition py_float :: "ustr \<Rightarrow> pyfloat option" where
  "py_float s =
     (let ip = takeWhile is_digit s; rest = dropWhile is_digit s in
      case rest of
        [] \<Rightarrow> if ip = [] then None else Some (to_double (dec_value ip) 1)
      | c # fp \<Rightarrow>
          if c = 46 \<and> list_all is_digit fp \<and> (ip \<noteq> [] \<or> fp \<noteq> [])
          then Some (to_double (dec_value (ip @ fp)) (10 ^ length fp))
          else None)"

datatype status = Low | Normal | High

record entry =
  e_name :: ustr
  e_value :: ustr
  e_range :: ustr
  e_status :: status

text \<open>
  The reference the window holds, in the order of the \<open>if\<close>/\<open>elif\<close> chain: the
  range pattern; else, if the window has a \<open><\<close>, the upper-bound pattern; else,
  if it has a \<open>>\<close>, the lower-bound pattern.  The bounds are the groups as matched.
\<close>

datatype bound = RangeB ustr ustr | UpperB ustr | LowerB ustr

definition find_reference :: "ustr \<Rightarrow> bound option" where
  "find_reference remaining_text =
     (case re_search range_pattern remaining_text of
        Some range_match \<Rightarrow>
          Some (RangeB (group range_match remaining_text 1) (group range_match remaining_text 2))
      | None \<Rightarrow>
          if 60 \<in> set remaining_text then
            (case re_search lt_pattern remaining_text of
               Some lt_match \<Rightarrow> Some (UpperB (group lt_match remaining_text 1))
             | None \<Rightarrow> None)
          else if 62 \<in> set remaining_text then
            (case re_search gt_pattern remaining_text of
               Some gt_match \<Rightarrow> Some (LowerB (group gt_match remaining_text 1))
             | None \<Rightarrow> None)
          else None)"

text \<open>
  The body of each branch: the conversions (each may raise \<open>ValueError\<close>), the
  reference string and the status.  \<open>val_num > max_val\<close> is \<open>max_val < val_num\<close>,
  and \<open>val_num >= ref_val\<close> is \<open>ref_val <= val_num\<close>.
\<close>

fun classify :: "ustr \<Rightarrow> ustr \<Rightarrow> bound \<Rightarrow> error + (ustr \<times> status)" where
  "classify value_str unit (RangeB g1 g2) =
     (case py_float (remove_commas g1) of
        None \<Rightarrow> Inl ValueError
      | Some min_val \<Rightarrow>
          (case py_float (remove_commas g2) of
             None \<Rightarrow> Inl ValueError
           | Some max_val \<Rightarrow>
               (case py_float value_str of
                  None \<Rightarrow> Inl ValueError
                | Some val_num \<Rightarrow>
                    Inr (g1 @ [32, 8211, 32] @ g2 @ [32] @ unit,
                         if fl_lt val_num min_val then Low
                         else if fl_lt max_val val_num then High
                         else Normal))))"
| "classify value_str unit (UpperB g) =
     (case py_float (remove_commas g) of
        None \<Rightarrow> Inl ValueError
      | Some ref_val \<Rightarrow>
          (case py_float value_str of
             None \<Rightarrow> Inl ValueError
           | Some val_num \<Rightarrow>
               Inr ([60, 32] @ g @ [32] @ unit,
                    if fl_le ref_val val_num then High else Normal)))"
| "classify value_str unit (LowerB g) =
     (case py_float (remove_commas g) of
        None \<Rightarrow> Inl ValueError
      | Some ref_val \<Rightarrow>
          (case py_float value_str of
             None \<Rightarrow> Inl ValueError
           | Some val_num \<Rightarrow>
               Inr ([62, 32] @ g @ [32] @ unit,
                    if fl_le val_num ref_val then Low else Normal)))"

text \<open>
  \<open>context[value_match.end():value_match.end() + 300]\<close>, the window in which the
  reference is looked for.

  The loop body after a successful value match: \<open>Inr None\<close> is "no entry appended",
  \<open>Inr (Some e)\<close> is "\<open>e\<close> appended", \<open>Inl\<close> is the exception that ends the call.
\<close>

definition window_after :: "ustr \<Rightarrow> rmatch \<Rightarrow> ustr" where
  "window_after ctx value_match =
     py_slice ctx (int (m_end value_match)) (int (m_end value_match) + 300)"

definition entry_at :: "ustr \<Rightarrow> ustr \<times> ustr \<Rightarrow> rmatch \<Rightarrow> error + entry option" where
  "entry_at ctx p value_match =
     (let value_str = remove_commas (group value_match ctx 1);
          remaining_text = window_after ctx value_match
      in case find_reference remaining_text of
           None \<Rightarrow> Inr None
         | Some b \<Rightarrow>
             (case classify value_str (snd p) b of
                Inl e \<Rightarrow> Inl e
              | Inr (reference, st) \<Rightarrow>
                  if reference \<noteq> [] then
                    Inr (Some \<lparr>e_name = fst p, e_value = value_str @ [32] @ snd p,
                               e_range = reference, e_status = st\<rparr>)
                  else Inr None))"

definition analyse_param :: "ustr \<Rightarrow> ustr \<times> ustr \<Rightarrow> error + entry option" where
  "analyse_param ctx p =
     (case re_search (value_pattern (fst p) (snd p)) ctx of
        None \<Rightarrow> Inr None
      | Some value_match \<Rightarrow> entry_at ctx p value_match)"

fun extract_loop :: "ustr \<Rightarrow> (ustr \<times> ustr) list \<Rightarrow> entry list \<Rightarrow> error + entry list" where
  "extract_loop ctx [] parameters = Inr parameters"
| "extract_loop ctx (p # ps) parameters =
     (case analyse_param ctx p of
        Inl e \<Rightarrow> Inl e
      | Inr None \<Rightarrow> extract_loop ctx ps parameters
      | Inr (Some en) \<Rightarrow> extract_loop ctx ps (parameters @ [en]))"

text \<open>The method takes \<open>self\<close> and neither reads nor writes it.\<close>

definition extract_medical_parameters :: "'ix backend \<Rightarrow> ustr \<Rightarrow> error + entry list" where
  "extract_medical_parameters self ctx = extract_loop ctx known_params []"

text \<open>
  The text with its ASCII letters in upper case, to state that the value patterns do
  not see the case of the text.
\<close>

definition ascii_upper :: "cp \<Rightarrow> cp" where
  "ascii_upper c = (if 97 \<le> c \<and> c \<le> 122 then c - 32 else c)"

text \<open>The pattern items that name no single character case-sensitively.\<close>

fun case_blind :: "item \<Rightarrow> bool" where
  "case_blind (One (Lit p)) = False"
| "case_blind (Star (Lit p)) = False"
| "case_blind it = True"

section \<open>Properties of the chunker\<close>

subsection \<open>The loop and its windows\<close>

lemma py_slice_window:
  "a \<le> length xs \<Longrightarrow> py_slice xs (int a) (int a + int c) = take c (drop a xs)"
proof -
  assume a: "a \<le> length xs"
  have lo: "slice_bound (int (length xs)) (int a) = a"
    using a by (simp add: slice_bound_def)
  have hi: "slice_bound (int (length xs)) (int a + int c) = min (a + c) (length xs)"
    by (simp add: slice_bound_def min_def) linarith
  have "take (min (a + c) (length xs) - a) (drop a xs) = take c (drop a xs)"
    using a by (simp add: min_def)
  then show ?thesis
    by (simp add: py_slice_def Let_def lo hi)
qed

lemma chunk_loop_windows:
  "chunk_loop t cs step i =
     map strip (filter (\<lambda>w. strip w \<noteq> []) (window_loop t cs step i))"
proof (induction t cs step i rule: window_loop.induct)
  case (1 t cs step i)
  show ?case
  proof (cases "0 < step \<and> i < int (length t)")
    case True
    then show ?thesis
      using 1 by (subst chunk_loop.simps, subst window_loop.simps) (simp add: Let_def)
  next
    case False
    then have "chunk_loop t cs step i = []"
      by (subst chunk_loop.simps) auto
    moreover from False have "window_loop t cs step i = []"
      by (subst window_loop.simps) auto
    ultimately show ?thesis by simp
  qed
qed

lemma window_loop_done:
  "length t \<le> k * st \<Longrightarrow> window_loop t (int c) (int st) (int (k * st)) = []"
  by (subst window_loop.simps) (simp flip: of_nat_mult)

lemma window_loop_step:
  assumes "0 < st" "k * st < length t"
  shows "window_loop t (int c) (int st) (int (k * st)) =
     take c (drop (k * st) t) # window_loop t (int c) (int st) (int (Suc k * st))"
proof -
  have "int (k * st) + int st = int (Suc k * st)" by simp
  moreover have "py_slice t (int (k * st)) (int (k * st) + int c) = take c (drop (k * st) t)"
    using assms by (intro py_slice_window) simp
  ultimately show ?thesis
    using assms by (subst window_loop.simps) (simp flip: of_nat_mult of_nat_add add: add.commute)
qed

lemma window_loop_length:
  assumes "0 < st"
  shows "(k + j) * st < length t \<Longrightarrow> j < length (window_loop t (int c) (int st) (int (k * st)))"
proof (induction j arbitrary: k)
  case 0
  then show ?case using window_loop_step [OF assms, of k t c] by simp
next
  case (Suc j)
  have "k * st \<le> (k + Suc j) * st" by (simp add: add_mult_distrib)
  with Suc.prems have lt: "k * st < length t" by linarith
  have "(Suc k + j) * st < length t" using Suc.prems by simp
  from Suc.IH [OF this] show ?case
    using window_loop_step [OF assms lt, of c] by simp
qed

lemma window_loop_nth:
  assumes "0 < st"
  shows "j < length (window_loop t (int c) (int st) (int (k * st))) \<Longrightarrow>
     window_loop t (int c) (int st) (int (k * st)) ! j = take c (drop ((k + j) * st) t)
     \<and> (k + j) * st < length t"
proof (induction j arbitrary: k)
  case 0
  have lt: "k * st < length t"
  proof (rule ccontr)
    assume "\<not> k * st < length t"
    then have "window_loop t (int c) (int st) (int (k * st)) = []"
      by (intro window_loop_done) simp
    with 0 show False by simp
  qed
  then show ?case using window_loop_step [OF assms lt, of c] by simp
next
  case (Suc j)
  have lt: "k * st < length t"
  proof (rule ccontr)
    assume "\<not> k * st < length t"
    then have "window_loop t (int c) (int st) (int (k * st)) = []"
      by (intro window_loop_done) simp
    with Suc.prems show False by simp
  qed
  note st = window_loop_step [OF assms lt, of c]
  from Suc.prems st have "j < length (window_loop t (int c) (int st) (int (Suc k * st)))"
    by simp
  from Suc.IH [OF this] show ?case using st by simp
qed


lemma window_overlap_core:
  "drop st (take c (drop a xs)) = take (c - st) (take c (drop (a + st) xs))"
  by (simp add: drop_take min_def add.commute)

subsection \<open>Empty text and degenerate strides\<close>

text \<open>
  Claim C8.  For an empty text the chunker returns the empty chunk sequence (and stores
  it in \<open>self.chunks\<close>) without raising: \<open>range(0, 0, step)\<close> is empty for every
  stride but zero, so this holds for every configuration with
  \<open>chunk_size \<noteq> overlap\<close>, in particular for every valid one
  (\<open>overlap < chunk_size\<close>).  A zero stride is the subject of claim C2.
\<close>

theorem chunk_text_empty:
  "chunk_size \<noteq> overlap \<Longrightarrow>
     chunk_text self [] chunk_size overlap = Inr ([], self\<lparr>chunks := []\<rparr>)"
  by (simp add: chunk_text_def Let_def chunk_loop.simps [of "[]" chunk_size "chunk_size - overlap" 0])

theorem chunk_text_empty_witness:
  "(800::int) \<noteq> 100 \<and>
   chunk_text (init_backend None :: unit backend) [] 800 100 =
     Inr ([], (init_backend None)\<lparr>chunks := []\<rparr>)"
  using chunk_text_empty [of 800 100 "init_backend None :: unit backend"] by simp

text \<open>
  Claim C2, as the code has it.  The method validates nothing.  With
  \<open>overlap = chunk_size\<close> the stride is zero and \<open>range\<close> raises \<open>ValueError\<close>;
  with \<open>overlap > chunk_size\<close> the stride is negative, the range is empty, and the
  method returns (and stores) the empty chunk sequence without any error.  In both
  cases the call returns at once: \<open>chunk_loop\<close> is a total function.
\<close>

theorem chunk_text_bad_overlap:
  "chunk_size \<le> overlap \<Longrightarrow>
     chunk_text self t chunk_size overlap =
       (if overlap = chunk_size then Inl ValueError else Inr ([], self\<lparr>chunks := []\<rparr>))"
  by (auto simp: chunk_text_def Let_def chunk_loop.simps [of t chunk_size "chunk_size - overlap" 0])

theorem chunk_text_bad_overlap_witness:
  "(5::int) \<le> 5 \<and>
   chunk_text (init_backend None :: unit backend) (cps ''abc'') 5 5 = Inl ValueError"
  using chunk_text_bad_overlap [of 5 5 "init_backend None :: unit backend" "cps ''abc''"]
  by simp

text \<open>
  The claim as stated fails: with \<open>chunk_size = 5\<close> and \<open>overlap = 7\<close> the call
  returns a chunk sequence (the empty one) instead of failing.
\<close>

theorem chunk_text_bad_overlap_counterexample:
  "chunk_text (init_backend None :: unit backend) (cps ''abc'') 5 7 =
     Inr ([], \<lparr>vector_store = None, chunks = [], api_key = None\<rparr>)"
  using chunk_loop.simps [of "cps ''abc''" 5 "-2" 0]
  by (simp add: chunk_text_def Let_def init_backend_def)

subsection \<open>Coverage and overlap\<close>

text \<open>
  Claim C3, as the code has it.  For \<open>0 \<le> overlap < chunk_size\<close> the chunks returned
  are the windows of the loop, each trimmed, the blank ones dropped.  Window \<open>j\<close> is the
  substring of at most \<open>chunk_size\<close> characters at offset \<open>j * (chunk_size - overlap)\<close>;
  every position of the text lies in some window (no gaps); and the characters of a
  window from the stride on are the first \<open>overlap\<close> characters of the next window, which
  are exactly \<open>overlap\<close> many whenever the earlier window has its full length.  Several
  trailing windows may be shorter, not only the final one.
\<close>

theorem chunk_text_windows:
  assumes "0 \<le> overlap" and "overlap < chunk_size"
  shows "chunk_text self t chunk_size overlap =
           Inr (map strip (filter (\<lambda>w. strip w \<noteq> []) (windows t chunk_size overlap)),
                self\<lparr>chunks := map strip (filter (\<lambda>w. strip w \<noteq> []) (windows t chunk_size overlap))\<rparr>)
         \<and> (\<forall>j < length (windows t chunk_size overlap).
               windows t chunk_size overlap ! j =
                 take (nat chunk_size) (drop (j * nat (chunk_size - overlap)) t))
         \<and> (\<forall>p < length t. \<exists>j < length (windows t chunk_size overlap).
               j * nat (chunk_size - overlap) \<le> p \<and>
               p < j * nat (chunk_size - overlap) + length (windows t chunk_size overlap ! j))
         \<and> (\<forall>j. Suc j < length (windows t chunk_size overlap) \<longrightarrow>
               drop (nat (chunk_size - overlap)) (windows t chunk_size overlap ! j) =
                 take (nat overlap) (windows t chunk_size overlap ! Suc j)
               \<and> (length (windows t chunk_size overlap ! j) = nat chunk_size \<longrightarrow>
                    length (take (nat overlap) (windows t chunk_size overlap ! Suc j)) = nat overlap))"
proof -
  define c where "c = nat chunk_size"
  define st where "st = nat (chunk_size - overlap)"
  define ws where "ws = windows t chunk_size overlap"
  have cs: "chunk_size = int c" and stp: "chunk_size - overlap = int st"
    and st0: "0 < st" and ov: "nat overlap = c - st" and stc: "st \<le> c"
    using assms by (auto simp: c_def st_def)
  have ws: "ws = window_loop t (int c) (int st) (int (0 * st))"
    by (simp add: ws_def windows_def cs [symmetric] stp [symmetric])
  have nth: "ws ! j = take c (drop (j * st) t) \<and> j * st < length t" if "j < length ws" for j
    using window_loop_nth [OF st0, of j t c 0] that by (simp add: ws)
  have len: "j < length ws" if "j * st < length t" for j
    using window_loop_length [OF st0, of 0 j t c] that by (simp add: ws)
  have A: "chunk_text self t chunk_size overlap =
      Inr (map strip (filter (\<lambda>w. strip w \<noteq> []) ws),
           self\<lparr>chunks := map strip (filter (\<lambda>w. strip w \<noteq> []) ws)\<rparr>)"
    using assms by (simp add: chunk_text_def Let_def chunk_loop_windows ws_def windows_def)
  have B: "\<forall>j < length ws. ws ! j = take c (drop (j * st) t)"
    using nth by blast
  have C: "\<forall>p < length t. \<exists>j < length ws. j * st \<le> p \<and> p < j * st + length (ws ! j)"
  proof (intro allI impI)
    fix p assume p: "p < length t"
    let ?j = "p div st"
    have le: "?j * st \<le> p" by simp
    then have jl: "?j < length ws" using p by (intro len) linarith
    have "p < ?j * st + st"
      using st0 by (metis add.commute div_mult_mod_eq add_less_cancel_left mod_less_divisor mult.commute)
    then have "p < ?j * st + length (ws ! ?j)"
      using nth [OF jl] p stc by (simp add: min_def)
    with le jl show "\<exists>j < length ws. j * st \<le> p \<and> p < j * st + length (ws ! j)"
      by blast
  qed
  have D: "\<forall>j. Suc j < length ws \<longrightarrow>
      drop st (ws ! j) = take (c - st) (ws ! Suc j)
      \<and> (length (ws ! j) = c \<longrightarrow> length (take (c - st) (ws ! Suc j)) = c - st)"
  proof (intro allI impI)
    fix j assume j: "Suc j < length ws"
    then have j': "j < length ws" by simp
    have e: "drop st (ws ! j) = take (c - st) (ws ! Suc j)"
      using nth [OF j] nth [OF j'] window_overlap_core [of st c "j * st" t]
      by (simp add: add.commute)
    have "length (take (c - st) (ws ! Suc j)) = c - st" if "length (ws ! j) = c"
      using e that by (metis length_drop)
    with e show "drop st (ws ! j) = take (c - st) (ws ! Suc j)
      \<and> (length (ws ! j) = c \<longrightarrow> length (take (c - st) (ws ! Suc j)) = c - st)"
      by blast
  qed
  from A B C D show ?thesis
    unfolding ws_def c_def st_def ov [unfolded c_def st_def] by blast
qed

theorem chunk_text_windows_witness:
  "(0::int) \<le> 6 \<and> (6::int) < 8 \<and>
   chunk_text (init_backend None :: unit backend) (cps ''abcdefghij'') 8 6 =
     Inr (map strip (filter (\<lambda>w. strip w \<noteq> []) (windows (cps ''abcdefghij'') 8 6)),
          (init_backend None)\<lparr>chunks :=
             map strip (filter (\<lambda>w. strip w \<noteq> []) (windows (cps ''abcdefghij'') 8 6))\<rparr>) \<and>
   windows (cps ''abcdefghij'') 8 6 ! 1 = take 8 (drop 2 (cps ''abcdefghij'')) \<and>
   drop 2 (windows (cps ''abcdefghij'') 8 6 ! 0) = take 6 (windows (cps ''abcdefghij'') 8 6 ! 1)"
proof -
  have h1: "(0::int) \<le> 6" and h2: "(6::int) < 8" by simp_all
  note T = chunk_text_windows [OF h1 h2, of "init_backend None :: unit backend" "cps ''abcdefghij''"]
  have W: "length (windows (cps ''abcdefghij'') 8 6) = 5" by code_simp
  from T have A: "chunk_text (init_backend None :: unit backend) (cps ''abcdefghij'') 8 6 =
     Inr (map strip (filter (\<lambda>w. strip w \<noteq> []) (windows (cps ''abcdefghij'') 8 6)),
          (init_backend None)\<lparr>chunks :=
             map strip (filter (\<lambda>w. strip w \<noteq> []) (windows (cps ''abcdefghij'') 8 6))\<rparr>)"
    by (rule conjunct1)
  from T have B: "\<forall>j < length (windows (cps ''abcdefghij'') 8 6).
      windows (cps ''abcdefghij'') 8 6 ! j = take (nat 8) (drop (j * nat (8 - 6)) (cps ''abcdefghij''))"
    by (rule conjunct1 [OF conjunct2])
  from T have D: "\<forall>j. Suc j < length (windows (cps ''abcdefghij'') 8 6) \<longrightarrow>
      drop (nat (8 - 6)) (windows (cps ''abcdefghij'') 8 6 ! j) =
        take (nat 6) (windows (cps ''abcdefghij'') 8 6 ! Suc j)
      \<and> (length (windows (cps ''abcdefghij'') 8 6 ! j) = nat 8 \<longrightarrow>
           length (take (nat 6) (windows (cps ''abcdefghij'') 8 6 ! Suc j)) = nat 6)"
    by (rule conjunct2 [OF conjunct2 [OF conjunct2]])
  from B [rule_format, of 1] W
  have b: "windows (cps ''abcdefghij'') 8 6 ! 1 = take 8 (drop 2 (cps ''abcdefghij''))"
    by simp
  from D [rule_format, of 0] W
  have d: "drop 2 (windows (cps ''abcdefghij'') 8 6 ! 0) = take 6 (windows (cps ''abcdefghij'') 8 6 ! 1)"
    by simp
  from h1 h2 A b d show ?thesis by blast
qed

text \<open>
  The claim as stated fails on the returned chunks: the text \<open>abcdefghij\<close> with
  \<open>chunk_size = 8\<close> and \<open>overlap = 6\<close> gives five chunks, and the third and fourth
  (\<open>efghij\<close>, \<open>ghij\<close>), neither of them the final chunk, share four characters, not
  six.
\<close>

theorem chunk_overlap_counterexample:
  "chunk_text (init_backend None :: unit backend) (cps ''abcdefghij'') 8 6 =
     Inr ([cps ''abcdefgh'', cps ''cdefghij'', cps ''efghij'', cps ''ghij'', cps ''ij''],
          \<lparr>vector_store = None,
             chunks = [cps ''abcdefgh'', cps ''cdefghij'', cps ''efghij'', cps ''ghij'', cps ''ij''],
             api_key = None\<rparr>) \<and>
   \<not> spec_overlap 6 [cps ''abcdefgh'', cps ''cdefghij'', cps ''efghij'', cps ''ghij'', cps ''ij'']"
proof -
  have wl: "window_loop (cps ''abcdefghij'') 8 2 0 =
      [cps ''abcdefgh'', cps ''cdefghij'', cps ''efghij'', cps ''ghij'', cps ''ij'']"
    by code_simp
  have "chunk_loop (cps ''abcdefghij'') 8 2 0 =
      [cps ''abcdefgh'', cps ''cdefghij'', cps ''efghij'', cps ''ghij'', cps ''ij'']"
    unfolding chunk_loop_windows wl by (simp add: strip_def cps_def is_space_def)
  moreover have "\<not> spec_overlap 6
      [cps ''abcdefgh'', cps ''cdefghij'', cps ''efghij'', cps ''ghij'', cps ''ij'']"
    by (simp add: overlaps_by_def cps_def)
  ultimately show ?thesis
    by (simp add: chunk_text_def Let_def init_backend_def)
qed

section \<open>Properties of retrieval\<close>

text \<open>
  Claim C4, as the code has it.  Retrieval before the index has been built (the
  \<open>vector_store\<close> field is still \<open>None\<close>) returns the empty list and raises nothing,
  whatever the query, \<open>top_k\<close> and the libraries would do: the method returns before it
  calls them.
\<close>

theorem retrieve_unbuilt:
  "vector_store self = None \<Longrightarrow> retrieve_relevant_chunks search self query top_k = Inr []"
  by (simp add: retrieve_relevant_chunks_def)

theorem retrieve_unbuilt_witness:
  "vector_store (init_backend None :: unit backend) = None \<and>
   retrieve_relevant_chunks failing_search (init_backend None) (cps ''hemoglobin'') 3 = Inr []"
proof -
  have h: "vector_store (init_backend None :: unit backend) = None"
    by (simp add: init_backend_def)
  from h retrieve_unbuilt [OF h, of failing_search "cps ''hemoglobin''" 3] show ?thesis by simp
qed

text \<open>
  The claim as stated fails: on the freshly constructed backend the call returns the
  empty list, where the claim wants an \<open>IndexNotBuilt\<close> error.
\<close>

theorem retrieve_unbuilt_counterexample:
  "retrieve_relevant_chunks failing_search (init_backend None)
     (cps ''medical test results with reference ranges'') 5 = Inr []"
  by (simp add: retrieve_relevant_chunks_def init_backend_def)


subsection \<open>Retrieval from a built index\<close>








section \<open>Properties of the extractor\<close>

subsection \<open>The search and the loop\<close>

text \<open>
  \<open>re.search\<close> returns a match that starts at the least position at which the
  pattern matches; the loop appends, in catalog order, what the loop body yields.
\<close>

lemma search_from_leftmost:
  "search_from p s i = Some mt \<Longrightarrow>
     i \<le> m_start mt \<and> m_start mt \<le> i + length s \<and>
     match_here p (drop (m_start mt - i) s) (m_start mt) [] = Some (m_end mt, m_marks mt) \<and>
     (\<forall>q < m_start mt - i. match_here p (drop q s) (i + q) [] = None)"
proof (induction s arbitrary: i)
  case Nil
  then show ?case by (auto split: option.splits)
next
  case (Cons c s)
  show ?case
  proof (cases "match_here p (c # s) i []")
    case None
    with Cons.prems have rec: "search_from p s (Suc i) = Some mt" by simp
    note ih = Cons.IH [OF rec]
    from ih have lt: "i < m_start mt" by simp
    then have "m_start mt - i = Suc (m_start mt - Suc i)" by simp
    then have d: "drop (m_start mt - i) (c # s) = drop (m_start mt - Suc i) s"
      by simp
    have "match_here p (drop q (c # s)) (i + q) [] = None" if "q < m_start mt - i" for q
    proof (cases q)
      case 0
      with None show ?thesis by simp
    next
      case (Suc q')
      with that have "q' < m_start mt - Suc i" by simp
      with ih have "match_here p (drop q' s) (Suc i + q') [] = None" by blast
      with Suc show ?thesis by simp
    qed
    with ih lt d show ?thesis by auto
  next
    case (Some r)
    with Cons.prems show ?thesis by (cases r) auto
  qed
qed

lemma re_search_leftmost:
  assumes "re_search p s = Some mt"
  shows "m_start mt \<le> length s"
    and "match_here p (drop (m_start mt) s) (m_start mt) [] = Some (m_end mt, m_marks mt)"
    and "\<forall>q < m_start mt. match_here p (drop q s) q [] = None"
  using search_from_leftmost [of p s 0 mt] assms by (simp_all add: re_search_def)

lemma entry_at_Some:
  assumes "entry_at ctx p mt = Inr (Some e)"
  shows "\<exists>b. find_reference (window_after ctx mt) = Some b \<and>
             classify (remove_commas (group mt ctx 1)) (snd p) b = Inr (e_range e, e_status e)"
    and "e_name e = fst p"
    and "e_value e = remove_commas (group mt ctx 1) @ [32] @ snd p"
  using assms
  by (auto simp: entry_at_def Let_def split: option.splits sum.splits prod.splits if_splits)

lemma analyse_param_Some:
  assumes "analyse_param ctx p = Inr (Some e)"
  shows "\<exists>mt. re_search (value_pattern (fst p) (snd p)) ctx = Some mt \<and>
               entry_at ctx p mt = Inr (Some e)"
  using assms by (auto simp: analyse_param_def split: option.splits)

lemma extract_loop_entries:
  "extract_loop ctx ps acc = Inr res \<Longrightarrow>
     \<exists>new. res = acc @ new \<and> subseq (map e_name new) (map fst ps) \<and>
           (\<forall>e \<in> set new. \<exists>p \<in> set ps. analyse_param ctx p = Inr (Some e))"
proof (induction ps arbitrary: acc)
  case Nil
  then show ?case by simp
next
  case (Cons p ps)
  show ?case
  proof (cases "analyse_param ctx p")
    case (Inl err)
    with Cons.prems show ?thesis by simp
  next
    case (Inr r)
    show ?thesis
    proof (cases r)
      case None
      with Inr Cons.prems have "extract_loop ctx ps acc = Inr res" by simp
      from Cons.IH [OF this] obtain new where
        n: "res = acc @ new" "subseq (map e_name new) (map fst ps)"
           "\<forall>e \<in> set new. \<exists>p \<in> set ps. analyse_param ctx p = Inr (Some e)"
        by blast
      from n(2) have "subseq (map e_name new) (map fst (p # ps))"
        by (auto intro: list_emb.intros)
      with n(1,3) show ?thesis by auto
    next
      case (Some en)
      with Inr Cons.prems have "extract_loop ctx ps (acc @ [en]) = Inr res" by simp
      from Cons.IH [OF this] obtain new where
        n: "res = (acc @ [en]) @ new" "subseq (map e_name new) (map fst ps)"
           "\<forall>e \<in> set new. \<exists>p \<in> set ps. analyse_param ctx p = Inr (Some e)"
        by blast
      from Inr Some have a: "analyse_param ctx p = Inr (Some en)" by simp
      then have "e_name en = fst p"
        using analyse_param_Some entry_at_Some(2) by blast
      with n(2) have "subseq (map e_name (en # new)) (map fst (p # ps))"
        by (auto intro: list_emb.intros)
      moreover from n(1) have "res = acc @ (en # new)" by simp
      moreover from a n(3)
      have "\<forall>e \<in> set (en # new). \<exists>q \<in> set (p # ps). analyse_param ctx q = Inr (Some e)"
        by auto
      ultimately show ?thesis by blast
    qed
  qed
qed

lemma subseq_keeps_distinct: "subseq xs ys \<Longrightarrow> distinct ys \<Longrightarrow> distinct xs"
  by (induction rule: list_emb.induct) (auto dest: list_emb_set)

lemma known_params_distinct: "distinct (map fst known_params)"
  by (simp add: known_params_def cps_def)

lemma known_params_length: "length known_params = 15"
  by (simp add: known_params_def)

text \<open>The equations that evaluate the extractor on a concrete text.\<close>

lemmas eval_defs = re_search_def value_pattern_def range_pattern_def lt_pattern_def gt_pattern_def
  cps_def ci_eq_def to_lower_def is_space_def is_digit_def known_params_def
  extract_medical_parameters_def analyse_param_def entry_at_def window_after_def
  find_reference_def group_def py_slice_def slice_bound_def remove_commas_def py_float_def
  dec_value_def digit_value_def decimal_zeros_def to_double_def pow2_def round_half_even_def
  bit_length.simps Let_def

lemma extract_entries:
  assumes "extract_medical_parameters self ctx = Inr res" and "e \<in> set res"
  shows "\<exists>unit mt. (e_name e, unit) \<in> set known_params \<and>
           re_search (value_pattern (e_name e) unit) ctx = Some mt \<and>
           entry_at ctx (e_name e, unit) mt = Inr (Some e)"
proof -
  from assms(1) have "extract_loop ctx known_params [] = Inr res"
    by (simp add: extract_medical_parameters_def)
  from extract_loop_entries [OF this] assms(2)
  obtain p where p: "p \<in> set known_params" "analyse_param ctx p = Inr (Some e)"
    by auto
  from analyse_param_Some [OF p(2)] obtain mt where
    mt: "re_search (value_pattern (fst p) (snd p)) ctx = Some mt"
        "entry_at ctx p mt = Inr (Some e)"
    by blast
  obtain n u where pu: "p = (n, u)" by (cases p)
  from entry_at_Some(2) [OF mt(2)] pu have n: "n = e_name e" by simp
  from p(1) mt pu n have "(e_name e, u) \<in> set known_params"
    and "re_search (value_pattern (e_name e) u) ctx = Some mt"
    and "entry_at ctx (e_name e, u) mt = Inr (Some e)"
    by simp_all
  then show ?thesis by blast
qed

subsection \<open>The value patterns do not see the case of the text\<close>

lemma to_lower_ascii_upper: "to_lower (ascii_upper c) = to_lower c"
  by (auto simp: to_lower_def ascii_upper_def)

lemma is_space_ascii_upper: "is_space (ascii_upper c) = is_space c"
  by (auto simp: is_space_def ascii_upper_def)

lemma digit_value_ascii_upper: "digit_value (ascii_upper c) = digit_value c"
  by (auto simp: digit_value_def ascii_upper_def)

lemma cls_mem_ascii_upper:
  assumes "case_blind (One k)"
  shows "cls_mem k (ascii_upper c) = cls_mem k c"
proof (cases k)
  case (Lit p)
  with assms show ?thesis by simp
next
  case (LitI p)
  then show ?thesis by (simp add: ci_eq_def to_lower_ascii_upper)
next
  case Space
  then show ?thesis by (simp add: is_space_ascii_upper)
next
  case Sep
  then show ?thesis by (auto simp: is_space_def ascii_upper_def)
next
  case Num
  have "is_digit (ascii_upper c) = is_digit c"
    by (simp add: is_digit_def digit_value_ascii_upper)
  moreover have "(ascii_upper c = 46) = (c = 46)" "(ascii_upper c = 44) = (c = 44)"
    by (auto simp: ascii_upper_def)
  ultimately show ?thesis using Num by simp
next
  case Dash
  then show ?thesis by (auto simp: ascii_upper_def)
qed

lemma case_blind_Star: "case_blind (Star k) = case_blind (One k)"
  by (cases k) simp_all

lemma match_here_ascii_upper:
  assumes "list_all case_blind p"
  shows "match_here p (map ascii_upper s) i m = match_here p s i m"
  using assms
proof (induction p s i m rule: match_here.induct)
  case (3 k r c s i m)
  then show ?case by (simp add: cls_mem_ascii_upper)
next
  case (5 k r c s i m)
  from "5.prems" have b: "case_blind (One k)" "list_all case_blind r"
    by (simp_all add: case_blind_Star)
  have c: "cls_mem k (ascii_upper c) = cls_mem k c" using b(1) by (rule cls_mem_ascii_upper)
  show ?case
  proof (cases "cls_mem k c")
    case True
    with "5.IH" "5.prems" b c show ?thesis
      by (cases "match_here (Star k # r) s (Suc i) m") (simp_all add: case_blind_Star)
  next
    case False
    with "5.IH" "5.prems" b c show ?thesis by (simp add: case_blind_Star)
  qed
qed simp_all

lemma search_from_ascii_upper:
  assumes "list_all case_blind p"
  shows "search_from p (map ascii_upper s) i = search_from p s i"
proof (induction s arbitrary: i)
  case Nil
  then show ?case by simp
next
  case (Cons c s)
  have "match_here p (ascii_upper c # map ascii_upper s) i [] = match_here p (c # s) i []"
    using match_here_ascii_upper [OF assms, of "c # s" i "[]"] by simp
  with Cons show ?case by (simp split: option.splits)
qed

lemma name_items_case_blind: "list_all case_blind (name_items n g st)"
  by (induction n g st rule: name_items.induct) (simp_all split: list.splits)

lemma value_pattern_case_blind: "list_all case_blind (value_pattern n u)"
  using name_items_case_blind [of n 1 "[]"]
  by (auto simp: value_pattern_def Let_def list_all_iff)

lemma value_search_ascii_upper:
  "re_search (value_pattern n u) (map ascii_upper ctx) = re_search (value_pattern n u) ctx"
  by (simp add: re_search_def search_from_ascii_upper value_pattern_case_blind)

subsection \<open>One entry per parameter, from its first occurrence\<close>

text \<open>
  Claim C10.  When the extraction returns a list, the names of its entries are a
  subsequence of the catalog's names: they are distinct (at most one entry per
  parameter, at most 15 entries) and in catalog order, wherever the parameters stand
  in the text.  Each entry is what the loop body yields at the match \<open>re.search\<close>
  finds for the parameter's value pattern, and that match is the first occurrence:
  the pattern matches at its start and at no earlier position of the text.  The
  occurrence is found whatever its case: the search finds the same match in the text
  with its ASCII letters in upper case.
\<close>

theorem extraction_one_entry_per_parameter:
  assumes "extract_medical_parameters self ctx = Inr res"
  shows "subseq (map e_name res) (map fst known_params) \<and>
         distinct (map e_name res) \<and>
         length res \<le> 15 \<and>
         (\<forall>e \<in> set res. \<exists>unit mt.
            (e_name e, unit) \<in> set known_params \<and>
            re_search (value_pattern (e_name e) unit) ctx = Some mt \<and>
            re_search (value_pattern (e_name e) unit) (map ascii_upper ctx) = Some mt \<and>
            match_here (value_pattern (e_name e) unit) (drop (m_start mt) ctx) (m_start mt) [] =
              Some (m_end mt, m_marks mt) \<and>
            (\<forall>q < m_start mt. match_here (value_pattern (e_name e) unit) (drop q ctx) q [] = None) \<and>
            entry_at ctx (e_name e, unit) mt = Inr (Some e))"
proof -
  from assms have "extract_loop ctx known_params [] = Inr res"
    by (simp add: extract_medical_parameters_def)
  from extract_loop_entries [OF this]
  have sub: "subseq (map e_name res) (map fst known_params)" by auto
  then have l2: "distinct (map e_name res)"
    using known_params_distinct by (rule subseq_keeps_distinct)
  from sub have "length (map e_name res) \<le> length (map fst known_params)"
    by (rule list_emb_length)
  then have len: "length res \<le> 15" by (simp add: known_params_length)
  have each: "\<exists>unit mt.
            (e_name e, unit) \<in> set known_params \<and>
            re_search (value_pattern (e_name e) unit) ctx = Some mt \<and>
            re_search (value_pattern (e_name e) unit) (map ascii_upper ctx) = Some mt \<and>
            match_here (value_pattern (e_name e) unit) (drop (m_start mt) ctx) (m_start mt) [] =
              Some (m_end mt, m_marks mt) \<and>
            (\<forall>q < m_start mt. match_here (value_pattern (e_name e) unit) (drop q ctx) q [] = None) \<and>
            entry_at ctx (e_name e, unit) mt = Inr (Some e)" if "e \<in> set res" for e
  proof -
    from extract_entries [OF assms that] obtain unit mt where
      u: "(e_name e, unit) \<in> set known_params"
         "re_search (value_pattern (e_name e) unit) ctx = Some mt"
         "entry_at ctx (e_name e, unit) mt = Inr (Some e)"
      by blast
    from u(2) have "re_search (value_pattern (e_name e) unit) (map ascii_upper ctx) = Some mt"
      by (simp add: value_search_ascii_upper)
    with re_search_leftmost(2,3) [OF u(2)] u show ?thesis by blast
  qed
  from sub l2 len each show ?thesis by blast
qed

text \<open>
  A text with \<open>HbA1c\<close> before two occurrences of \<open>Hemoglobin\<close>, the first one in
  upper case and with its value in Arabic-Indic digits (U+0661 twice, the number 11):
  the result lists \<open>Hemoglobin\<close> first (catalog order), once, from its first
  occurrence at position 19, not from the later one with the value 13.
\<close>

theorem extraction_one_entry_per_parameter_witness:
  "extract_medical_parameters (init_backend None :: unit backend)
     (cps ''HbA1c: 6 % 4 - 5 x HEMOGLOBIN: '' @ [1633, 1633] @ cps '' G/DL 12 - 15 x Hemoglobin: 13 g/dL'') =
     Inr [\<lparr>e_name = cps ''Hemoglobin'', e_value = [1633, 1633] @ cps '' g/dL'',
            e_range = cps ''12 '' @ [8211] @ cps '' 15 g/dL'', e_status = Low\<rparr>,
          \<lparr>e_name = cps ''HbA1c'', e_value = cps ''6 %'',
            e_range = cps ''4 '' @ [8211] @ cps '' 5 %'', e_status = High\<rparr>] \<and>
   subseq (map e_name
       [\<lparr>e_name = cps ''Hemoglobin'', e_value = [1633, 1633] @ cps '' g/dL'',
            e_range = cps ''12 '' @ [8211] @ cps '' 15 g/dL'', e_status = Low\<rparr>,
          \<lparr>e_name = cps ''HbA1c'', e_value = cps ''6 %'',
            e_range = cps ''4 '' @ [8211] @ cps '' 5 %'', e_status = High\<rparr>])
     (map fst known_params) \<and>
   distinct (map e_name
       [\<lparr>e_name = cps ''Hemoglobin'', e_value = [1633, 1633] @ cps '' g/dL'',
            e_range = cps ''12 '' @ [8211] @ cps '' 15 g/dL'', e_status = Low\<rparr>,
          \<lparr>e_name = cps ''HbA1c'', e_value = cps ''6 %'',
            e_range = cps ''4 '' @ [8211] @ cps '' 5 %'', e_status = High\<rparr>]) \<and>
   length
       [\<lparr>e_name = cps ''Hemoglobin'', e_value = [1633, 1633] @ cps '' g/dL'',
            e_range = cps ''12 '' @ [8211] @ cps '' 15 g/dL'', e_status = Low\<rparr>,
          \<lparr>e_name = cps ''HbA1c'', e_value = cps ''6 %'',
            e_range = cps ''4 '' @ [8211] @ cps '' 5 %'', e_status = High\<rparr>] \<le> 15 \<and>
   re_search (value_pattern (cps ''Hemoglobin'') (cps ''g/dL''))
     (cps ''HbA1c: 6 % 4 - 5 x HEMOGLOBIN: '' @ [1633, 1633] @ cps '' G/DL 12 - 15 x Hemoglobin: 13 g/dL'') =
     Some (RMatch 19 38 [(GEnd 1, 33), (GStart 1, 31)]) \<and>
   py_float [1633, 1633] = Some (Finite 11)"
proof -
  have h: "extract_medical_parameters (init_backend None :: unit backend)
     (cps ''HbA1c: 6 % 4 - 5 x HEMOGLOBIN: '' @ [1633, 1633] @ cps '' G/DL 12 - 15 x Hemoglobin: 13 g/dL'') =
     Inr [\<lparr>e_name = cps ''Hemoglobin'', e_value = [1633, 1633] @ cps '' g/dL'',
            e_range = cps ''12 '' @ [8211] @ cps '' 15 g/dL'', e_status = Low\<rparr>,
          \<lparr>e_name = cps ''HbA1c'', e_value = cps ''6 %'',
            e_range = cps ''4 '' @ [8211] @ cps '' 5 %'', e_status = High\<rparr>]"
    by (simp add: eval_defs cong: let_weak_cong)
  note t = extraction_one_entry_per_parameter [OF h]
  note c1 = conjunct1 [OF t]
  note c2 = conjunct1 [OF conjunct2 [OF t]]
  note c3 = conjunct1 [OF conjunct2 [OF conjunct2 [OF t]]]
  have f: "re_search (value_pattern (cps ''Hemoglobin'') (cps ''g/dL''))
     (cps ''HbA1c: 6 % 4 - 5 x HEMOGLOBIN: '' @ [1633, 1633] @ cps '' G/DL 12 - 15 x Hemoglobin: 13 g/dL'') =
     Some (RMatch 19 38 [(GEnd 1, 33), (GStart 1, 31)])"
    by (simp add: eval_defs cong: let_weak_cong)
  have g: "py_float [1633, 1633] = Some (Finite 11)"
    by (simp add: eval_defs cong: let_weak_cong)
  from h c1 c2 c3 f g show ?thesis
    by (intro conjI) assumption+
qed

subsection \<open>Status of an entry\<close>

lemma fl_le_not_lt: "fl_le a b \<longleftrightarrow> \<not> fl_lt b a"
  by (cases a; cases b) auto

lemma classify_status:
  assumes "classify vs unit b = Inr (r, st)"
  shows "\<exists>v. py_float vs = Some v \<and>
     (case b of
        RangeB g1 g2 \<Rightarrow>
          \<exists>mn mx. py_float (remove_commas g1) = Some mn \<and>
                  py_float (remove_commas g2) = Some mx \<and>
                  (st = Low \<longleftrightarrow> fl_lt v mn) \<and>
                  (st = High \<longleftrightarrow> \<not> fl_lt v mn \<and> fl_lt mx v) \<and>
                  (st = Normal \<longleftrightarrow> fl_le mn v \<and> fl_le v mx)
      | UpperB g \<Rightarrow>
          \<exists>x. py_float (remove_commas g) = Some x \<and>
              (st = High \<longleftrightarrow> fl_le x v) \<and> (st = Normal \<longleftrightarrow> fl_lt v x)
      | LowerB g \<Rightarrow>
          \<exists>x. py_float (remove_commas g) = Some x \<and>
              (st = Low \<longleftrightarrow> fl_le v x) \<and> (st = Normal \<longleftrightarrow> fl_lt x v))"
  using assms by (cases b) (auto split: option.splits if_splits simp: fl_le_not_lt)

text \<open>
  Claim C1, as the code has it.  Every entry of the result was classified against the
  reference found in the window after its value match, with \<open>v\<close> the value, as
  follows; \<open>v\<close>, \<open>mn\<close>, \<open>mx\<close> and \<open>x\<close> are the doubles \<open>float\<close> returns, and the
  comparisons are those of doubles.  Range \<open>mn\<close>--\<open>mx\<close>: \<open>Low\<close> iff \<open>v < mn\<close>;
  \<open>High\<close> iff \<open>v > mx\<close> and not \<open>v < mn\<close> (the \<open>elif\<close>: for a range printed
  with \<open>mn > mx\<close> a value between the two is \<open>Low\<close>); \<open>Normal\<close> iff
  \<open>mn \<le> v \<le> mx\<close>.  Upper bound \<open>< x\<close>: \<open>High\<close> iff \<open>v \<ge> x\<close>, else
  \<open>Normal\<close>.  Lower bound \<open>> x\<close>: \<open>Low\<close> iff \<open>v \<le> x\<close>, else \<open>Normal\<close>.  So a
  value equal to an upper bound is \<open>High\<close> and a value equal to a lower bound is
  \<open>Low\<close>, and so is a value whose decimal differs from the bound's but rounds to the
  same double.
\<close>

theorem classification_of_entries:
  assumes "extract_medical_parameters self ctx = Inr res" and "e \<in> set res"
  shows "\<exists>unit mt b v.
           (e_name e, unit) \<in> set known_params \<and>
           re_search (value_pattern (e_name e) unit) ctx = Some mt \<and>
           find_reference (window_after ctx mt) = Some b \<and>
           py_float (remove_commas (group mt ctx 1)) = Some v \<and>
           (case b of
              RangeB g1 g2 \<Rightarrow>
                \<exists>mn mx. py_float (remove_commas g1) = Some mn \<and>
                        py_float (remove_commas g2) = Some mx \<and>
                        (e_status e = Low \<longleftrightarrow> fl_lt v mn) \<and>
                        (e_status e = High \<longleftrightarrow> \<not> fl_lt v mn \<and> fl_lt mx v) \<and>
                        (e_status e = Normal \<longleftrightarrow> fl_le mn v \<and> fl_le v mx)
            | UpperB g \<Rightarrow>
                \<exists>x. py_float (remove_commas g) = Some x \<and>
                    (e_status e = High \<longleftrightarrow> fl_le x v) \<and> (e_status e = Normal \<longleftrightarrow> fl_lt v x)
            | LowerB g \<Rightarrow>
                \<exists>x. py_float (remove_commas g) = Some x \<and>
                    (e_status e = Low \<longleftrightarrow> fl_le v x) \<and> (e_status e = Normal \<longleftrightarrow> fl_lt x v))"
proof -
  from extract_entries [OF assms] obtain unit mt where
    u: "(e_name e, unit) \<in> set known_params"
       "re_search (value_pattern (e_name e) unit) ctx = Some mt"
       "entry_at ctx (e_name e, unit) mt = Inr (Some e)"
    by blast
  from entry_at_Some(1) [OF u(3)] obtain b where
    b: "find_reference (window_after ctx mt) = Some b"
       "classify (remove_commas (group mt ctx 1)) unit b = Inr (e_range e, e_status e)"
    by auto
  from classify_status [OF b(2)] u(1,2) b(1) show ?thesis by blast
qed

text \<open>
  The boundary case of an upper bound, reached by rounding: the value
  \<open>99.99999999999999999\<close> is the double 100, and with \<open>< 100 mg/dL\<close> after it the
  status is \<open>High\<close>.
\<close>

theorem classification_of_entries_witness:
  "extract_medical_parameters (init_backend None :: unit backend)
     (cps ''LDL Cholesterol: 99.99999999999999999 mg/dL < 100 mg/dL'') =
     Inr [\<lparr>e_name = cps ''LDL Cholesterol'', e_value = cps ''99.99999999999999999 mg/dL'', e_range = cps ''< 100 mg/dL'', e_status = High\<rparr>] \<and>
   \<lparr>e_name = cps ''LDL Cholesterol'', e_value = cps ''99.99999999999999999 mg/dL'', e_range = cps ''< 100 mg/dL'', e_status = High\<rparr>
     \<in> set [\<lparr>e_name = cps ''LDL Cholesterol'', e_value = cps ''99.99999999999999999 mg/dL'', e_range = cps ''< 100 mg/dL'', e_status = High\<rparr>] \<and>
   py_float (cps ''99.99999999999999999'') = Some (Finite 100) \<and>
   py_float (cps ''100'') = Some (Finite 100) \<and>
   (\<exists>unit mt b v.
           (e_name 
              \<lparr>e_name = cps ''LDL Cholesterol'', e_value = cps ''99.99999999999999999 mg/dL'', e_range = cps ''< 100 mg/dL'', e_status = High\<rparr>, unit) \<in> set known_params \<and>
           re_search (value_pattern (e_name
              \<lparr>e_name = cps ''LDL Cholesterol'', e_value = cps ''99.99999999999999999 mg/dL'', e_range = cps ''< 100 mg/dL'', e_status = High\<rparr>) unit) (cps ''LDL Cholesterol: 99.99999999999999999 mg/dL < 100 mg/dL'') = Some mt \<and>
           find_reference (window_after (cps ''LDL Cholesterol: 99.99999999999999999 mg/dL < 100 mg/dL'') mt) = Some b \<and>
           py_float (remove_commas (group mt (cps ''LDL Cholesterol: 99.99999999999999999 mg/dL < 100 mg/dL'') 1)) = Some v \<and>
           (case b of
              RangeB g1 g2 \<Rightarrow>
                \<exists>mn mx. py_float (remove_commas g1) = Some mn \<and>
                        py_float (remove_commas g2) = Some mx \<and>
                        (e_status 
              \<lparr>e_name = cps ''LDL Cholesterol'', e_value = cps ''99.99999999999999999 mg/dL'', e_range = cps ''< 100 mg/dL'', e_status = High\<rparr> = Low \<longleftrightarrow> fl_lt v mn) \<and>
                        (e_status 
              \<lparr>e_name = cps ''LDL Cholesterol'', e_value = cps ''99.99999999999999999 mg/dL'', e_range = cps ''< 100 mg/dL'', e_status = High\<rparr> = High \<longleftrightarrow> \<not> fl_lt v mn \<and> fl_lt mx v) \<and>
                        (e_status 
              \<lparr>e_name = cps ''LDL Cholesterol'', e_value = cps ''99.99999999999999999 mg/dL'', e_range = cps ''< 100 mg/dL'', e_status = High\<rparr> = Normal \<longleftrightarrow> fl_le mn v \<and> fl_le v mx)
            | UpperB g \<Rightarrow>
                \<exists>x. py_float (remove_commas g) = Some x \<and>
                    (e_status 
              \<lparr>e_name = cps ''LDL Cholesterol'', e_value = cps ''99.99999999999999999 mg/dL'', e_range = cps ''< 100 mg/dL'', e_status = High\<rparr> = High \<longleftrightarrow> fl_le x v) \<and> (e_status 
              \<lparr>e_name = cps ''LDL Cholesterol'', e_value = cps ''99.99999999999999999 mg/dL'', e_range = cps ''< 100 mg/dL'', e_status = High\<rparr> = Normal \<longleftrightarrow> fl_lt v x)
            | LowerB g \<Rightarrow>
                \<exists>x. py_float (remove_commas g) = Some x \<and>
                    (e_status 
              \<lparr>e_name = cps ''LDL Cholesterol'', e_value = cps ''99.99999999999999999 mg/dL'', e_range = cps ''< 100 mg/dL'', e_status = High\<rparr> = Low \<longleftrightarrow> fl_le v x) \<and> (e_status 
              \<lparr>e_name = cps ''LDL Cholesterol'', e_value = cps ''99.99999999999999999 mg/dL'', e_range = cps ''< 100 mg/dL'', e_status = High\<rparr> = Normal \<longleftrightarrow> fl_lt x v)))"
proof -
  have h1: "extract_medical_parameters (init_backend None :: unit backend)
     (cps ''LDL Cholesterol: 99.99999999999999999 mg/dL < 100 mg/dL'') =
     Inr [\<lparr>e_name = cps ''LDL Cholesterol'', e_value = cps ''99.99999999999999999 mg/dL'', e_range = cps ''< 100 mg/dL'', e_status = High\<rparr>]"
    by (simp add: eval_defs cong: let_weak_cong)
  have h2: "\<lparr>e_name = cps ''LDL Cholesterol'', e_value = cps ''99.99999999999999999 mg/dL'', e_range = cps ''< 100 mg/dL'', e_status = High\<rparr>
     \<in> set [\<lparr>e_name = cps ''LDL Cholesterol'', e_value = cps ''99.99999999999999999 mg/dL'', e_range = cps ''< 100 mg/dL'', e_status = High\<rparr>]"
    by simp
  have f1: "py_float (cps ''99.99999999999999999'') = Some (Finite 100)"
    by (simp add: eval_defs cong: let_weak_cong)
  have f2: "py_float (cps ''100'') = Some (Finite 100)"
    by (simp add: eval_defs cong: let_weak_cong)
  from h1 h2 f1 f2 classification_of_entries [OF h1 h2] show ?thesis
    by (intro conjI) assumption+
qed

text \<open>
  Where the claim as worded fails: a range printed as \<open>15 - 12\<close> and the value 13.
  The value is above the second number (\<open>13 > 12\<close>), yet the status is \<open>Low\<close>, not
  \<open>High\<close>, because \<open>13 < 15\<close> is tested first and the \<open>elif\<close> is then skipped.
\<close>

theorem inverted_range_counterexample:
  "extract_medical_parameters (init_backend None :: unit backend)
     (cps ''Hemoglobin: 13 g/dL 15 - 12'') =
     Inr [\<lparr>e_name = cps ''Hemoglobin'', e_value = cps ''13 g/dL'',
           e_range = cps ''15 '' @ [8211] @ cps '' 12 g/dL'', e_status = Low\<rparr>] \<and>
   py_float (cps ''13'') = Some (Finite 13) \<and> py_float (cps ''15'') = Some (Finite 15) \<and>
   py_float (cps ''12'') = Some (Finite 12) \<and> fl_lt (Finite 12) (Finite 13)"
  by (simp add: eval_defs cong: let_weak_cong)

text \<open>
  The rounding at work on a lower bound: \<open>1.00000000000000001\<close> and \<open>1\<close> are the
  same double, so the value is not above the bound and the status is \<open>Low\<close>.
\<close>

lemma rounding_merges_value_and_bound:
  "py_float (cps ''1.00000000000000001'') = Some (Finite 1) \<and>
   py_float (cps ''1'') = Some (Finite 1) \<and>
   extract_medical_parameters (init_backend None :: unit backend)
     (cps ''HDL Cholesterol: 1.00000000000000001 mg/dL > 1'') =
     Inr [\<lparr>e_name = cps ''HDL Cholesterol'', e_value = cps ''1.00000000000000001 mg/dL'',
           e_range = cps ''> 1 mg/dL'', e_status = Low\<rparr>]"
  by (simp add: eval_defs cong: let_weak_cong)

subsection \<open>Parameters without a reference\<close>

lemma find_reference_none:
  assumes "re_search range_pattern w = None"
    and "re_search lt_pattern w = None"
    and "re_search gt_pattern w = None"
  shows "find_reference w = None"
  using assms by (simp add: find_reference_def)

text \<open>
  Claim C7.  When the value pattern of a parameter matches and the window after the
  match holds none of the three reference forms, the loop body appends nothing and
  raises nothing (no conversion to \<open>float\<close> is attempted), and the loop goes on with
  the remaining parameters and the list collected so far.
\<close>

theorem no_reference_omits_parameter:
  assumes "re_search (value_pattern (fst p) (snd p)) ctx = Some mt"
    and "re_search range_pattern (window_after ctx mt) = None"
    and "re_search lt_pattern (window_after ctx mt) = None"
    and "re_search gt_pattern (window_after ctx mt) = None"
  shows "analyse_param ctx p = Inr None \<and>
         extract_loop ctx (p # ps) acc = extract_loop ctx ps acc"
proof -
  from assms(2-4) have "find_reference (window_after ctx mt) = None"
    by (rule find_reference_none)
  then have "entry_at ctx p mt = Inr None"
    by (simp add: entry_at_def Let_def)
  with assms(1) have "analyse_param ctx p = Inr None"
    by (simp add: analyse_param_def)
  then show ?thesis by simp
qed

text \<open>
  After the value of \<open>Hemoglobin\<close> the text goes on with \<open>- n/a <x>\<close>: a dash and
  a \<open><\<close> with no number, so none of the three forms.  \<open>Hemoglobin\<close> is left out,
  and the \<open>LDL Cholesterol\<close> entry, later in the catalog, is still extracted.
\<close>

theorem no_reference_omits_parameter_witness:
  "re_search (value_pattern (fst (cps ''Hemoglobin'', cps ''g/dL'')) (snd (cps ''Hemoglobin'', cps ''g/dL'')))
     (cps ''LDL Cholesterol: 130 mg/dL < 100 mg/dL Hemoglobin: 13 g/dL - n/a <x>'') = Some (RMatch 39 58 [(GEnd 1, 53), (GStart 1, 51)]) \<and>
   window_after (cps ''LDL Cholesterol: 130 mg/dL < 100 mg/dL Hemoglobin: 13 g/dL - n/a <x>'') (RMatch 39 58 [(GEnd 1, 53), (GStart 1, 51)]) = cps '' - n/a <x>'' \<and>
   re_search range_pattern (window_after (cps ''LDL Cholesterol: 130 mg/dL < 100 mg/dL Hemoglobin: 13 g/dL - n/a <x>'') (RMatch 39 58 [(GEnd 1, 53), (GStart 1, 51)])) = None \<and>
   re_search lt_pattern (window_after (cps ''LDL Cholesterol: 130 mg/dL < 100 mg/dL Hemoglobin: 13 g/dL - n/a <x>'') (RMatch 39 58 [(GEnd 1, 53), (GStart 1, 51)])) = None \<and>
   re_search gt_pattern (window_after (cps ''LDL Cholesterol: 130 mg/dL < 100 mg/dL Hemoglobin: 13 g/dL - n/a <x>'') (RMatch 39 58 [(GEnd 1, 53), (GStart 1, 51)])) = None \<and>
   analyse_param (cps ''LDL Cholesterol: 130 mg/dL < 100 mg/dL Hemoglobin: 13 g/dL - n/a <x>'') (cps ''Hemoglobin'', cps ''g/dL'') = Inr None \<and>
   extract_loop (cps ''LDL Cholesterol: 130 mg/dL < 100 mg/dL Hemoglobin: 13 g/dL - n/a <x>'') ((cps ''Hemoglobin'', cps ''g/dL'') # tl known_params) [] =
     extract_loop (cps ''LDL Cholesterol: 130 mg/dL < 100 mg/dL Hemoglobin: 13 g/dL - n/a <x>'') (tl known_params) [] \<and>
   extract_medical_parameters (init_backend None :: unit backend) (cps ''LDL Cholesterol: 130 mg/dL < 100 mg/dL Hemoglobin: 13 g/dL - n/a <x>'') =
     Inr [\<lparr>e_name = cps ''LDL Cholesterol'', e_value = cps ''130 mg/dL'', e_range = cps ''< 100 mg/dL'', e_status = High\<rparr>]"
proof -
  have h1: "re_search (value_pattern (fst (cps ''Hemoglobin'', cps ''g/dL'')) (snd (cps ''Hemoglobin'', cps ''g/dL'')))
     (cps ''LDL Cholesterol: 130 mg/dL < 100 mg/dL Hemoglobin: 13 g/dL - n/a <x>'') = Some (RMatch 39 58 [(GEnd 1, 53), (GStart 1, 51)])"
    by (simp add: eval_defs cong: let_weak_cong)
  have w: "window_after (cps ''LDL Cholesterol: 130 mg/dL < 100 mg/dL Hemoglobin: 13 g/dL - n/a <x>'') (RMatch 39 58 [(GEnd 1, 53), (GStart 1, 51)]) = cps '' - n/a <x>''"
    by (simp add: window_after_def py_slice_def slice_bound_def cps_def)
  have h2: "re_search range_pattern (window_after (cps ''LDL Cholesterol: 130 mg/dL < 100 mg/dL Hemoglobin: 13 g/dL - n/a <x>'') (RMatch 39 58 [(GEnd 1, 53), (GStart 1, 51)])) = None"
    and h3: "re_search lt_pattern (window_after (cps ''LDL Cholesterol: 130 mg/dL < 100 mg/dL Hemoglobin: 13 g/dL - n/a <x>'') (RMatch 39 58 [(GEnd 1, 53), (GStart 1, 51)])) = None"
    and h4: "re_search gt_pattern (window_after (cps ''LDL Cholesterol: 130 mg/dL < 100 mg/dL Hemoglobin: 13 g/dL - n/a <x>'') (RMatch 39 58 [(GEnd 1, 53), (GStart 1, 51)])) = None"
    unfolding w by (simp_all add: eval_defs cong: let_weak_cong)
  note t = no_reference_omits_parameter [OF h1 h2 h3 h4, of "tl known_params" "[]"]
  have k: "known_params = (cps ''Hemoglobin'', cps ''g/dL'') # tl known_params"
    by (simp add: known_params_def)
  have r: "extract_loop (cps ''LDL Cholesterol: 130 mg/dL < 100 mg/dL Hemoglobin: 13 g/dL - n/a <x>'') (tl known_params) [] = Inr [\<lparr>e_name = cps ''LDL Cholesterol'', e_value = cps ''130 mg/dL'', e_range = cps ''< 100 mg/dL'', e_status = High\<rparr>]"
    by (simp add: eval_defs cong: let_weak_cong)
  have "extract_medical_parameters (init_backend None :: unit backend) (cps ''LDL Cholesterol: 130 mg/dL < 100 mg/dL Hemoglobin: 13 g/dL - n/a <x>'') =
      extract_loop (cps ''LDL Cholesterol: 130 mg/dL < 100 mg/dL Hemoglobin: 13 g/dL - n/a <x>'') ((cps ''Hemoglobin'', cps ''g/dL'') # tl known_params) []"
    unfolding extract_medical_parameters_def using k by simp
  with t r have e: "extract_medical_parameters (init_backend None :: unit backend) (cps ''LDL Cholesterol: 130 mg/dL < 100 mg/dL Hemoglobin: 13 g/dL - n/a <x>'') =
     Inr [\<lparr>e_name = cps ''LDL Cholesterol'', e_value = cps ''130 mg/dL'', e_range = cps ''< 100 mg/dL'', e_status = High\<rparr>]"
    by simp
  from h1 w h2 h3 h4 t e show ?thesis
    by (intro conjI) (erule conjunct1 conjunct2 | assumption)+
qed

subsection \<open>The order of the three forms\<close>

text \<open>
  The range form is tried first on the whole window.  Without a range form, the
  lower-bound form is used when the window has no \<open><\<close> character at all; a \<open><\<close>
  that starts no upper-bound form still selects the second branch of the
  \<open>if\<close>/\<open>elif\<close> chain, which then finds nothing, and the third branch is never
  reached.
\<close>

lemma find_reference_lower:
  assumes "re_search range_pattern w = None" and "60 \<notin> set w"
    and "re_search gt_pattern w = Some gm"
  shows "find_reference w = Some (LowerB (group gm w 1))"
proof -
  from re_search_leftmost(1,2) [OF assms(3)]
  have "drop (m_start gm) w \<noteq> []"
    by (auto simp: gt_pattern_def)
  then have "hd (drop (m_start gm) w) \<in> set w"
    by (metis hd_in_set in_set_dropD)
  moreover from re_search_leftmost(2) [OF assms(3)]
  have "hd (drop (m_start gm) w) = 62"
    by (cases "drop (m_start gm) w") (auto simp: gt_pattern_def split: if_splits)
  ultimately have "62 \<in> set w" by simp
  with assms show ?thesis by (simp add: find_reference_def)
qed

lemma find_reference_stray_less:
  assumes "re_search range_pattern w = None" and "60 \<in> set w"
    and "re_search lt_pattern w = None"
  shows "find_reference w = None"
  using assms by (simp add: find_reference_def)

text \<open>
  Claim C6, where the code departs from it.  The window \<open><low> > 40 mg/dL\<close> after
  the value of \<open>HDL Cholesterol\<close> holds no range form and no upper-bound form (the
  \<open><\<close> is followed by no number), and it does hold the lower-bound form \<open>> 40\<close>.
  The lower bound is not used: no reference is found and the parameter is left out of
  the result.  Without the stray \<open><\<close> the same lower bound is used and the status is
  \<open>Low\<close>.
\<close>

theorem stray_less_than_blocks_lower_bound:
  "re_search range_pattern (cps '' <low> > 40 mg/dL'') = None \<and>
   re_search lt_pattern (cps '' <low> > 40 mg/dL'') = None \<and>
   re_search gt_pattern (cps '' <low> > 40 mg/dL'') =
     Some (RMatch 7 11 [(GEnd 1, 11), (GStart 1, 9)]) \<and>
   find_reference (cps '' <low> > 40 mg/dL'') = None \<and>
   find_reference (cps '' > 40 mg/dL'') = Some (LowerB (cps ''40'')) \<and>
   extract_medical_parameters (init_backend None :: unit backend)
     (cps ''HDL Cholesterol: 35 mg/dL <low> > 40 mg/dL'') = Inr [] \<and>
   extract_medical_parameters (init_backend None :: unit backend)
     (cps ''HDL Cholesterol: 35 mg/dL > 40 mg/dL'') =
     Inr [\<lparr>e_name = cps ''HDL Cholesterol'', e_value = cps ''35 mg/dL'',
           e_range = cps ''> 40 mg/dL'', e_status = Low\<rparr>]"
  by (simp add: eval_defs cong: let_weak_cong)

end
